theory Spec2Isabelle
  imports Complex_Main
begin

section \<open>The recognition loop of the mobile app (src/mobile/app/index.tsx)\<close>

text \<open>
  The only code of the repository that gates announcements is the React component
  \<open>App\<close> of \<^verbatim>\<open>src/mobile/app/index.tsx\<close>: an interval timer runs
  \<^verbatim>\<open>captureAndSendFrame\<close> every \<^verbatim>\<open>CAPTURE_INTERVAL\<close> milliseconds; the
  function takes a picture, posts it to the detection server and, when the first person
  of the answer is similar enough and \<^verbatim>\<open>canShowPerson\<close> agrees, shows that person
  and stores the time in \<^verbatim>\<open>lastDetectionTime\<close>.

  Modelling decisions:
  \<^item> \<^verbatim>\<open>Date.now()\<close> is an integral number of milliseconds: \<open>int\<close>.
  \<^item> A JavaScript number that is a finite double is modelled by the real number it
    denotes, so \<open>>\<close> on doubles is \<open>>\<close> on reals.
  \<^item> The refs and React state the function touches are fields of the record
    \<open>AppState\<close>, passed in and returned.
  \<^item> A promise that rejects (an exception thrown across an \<^verbatim>\<open>await\<close>) is \<open>Inl\<close> of
    a sum; the answers of the camera, the image manipulator, \<^verbatim>\<open>fetch\<close>,
    \<^verbatim>\<open>response.json()\<close> and the two readings of the clock are the inputs of one
    cycle (\<open>cycle_env\<close>).
  \<^item> JavaScript runs each stretch of code between two \<^verbatim>\<open>await\<close>s to completion, so the
    session is a sequence of atomic events: a timer tick, an in-flight cycle settling,
    the effect's cleanup, the end of a swipe.
\<close>

subsection \<open>Data\<close>

type_synonym timestamp = int

text \<open>\<^verbatim>\<open>interface DetectedPerson\<close> (lines 44-48).\<close>

record DetectedPerson =
  name :: string
  similarity :: real
  relation :: string

text \<open>
  \<^verbatim>\<open>interface ProfileInfo\<close> (lines 50-55). The bundled image and the icon component
  are represented by their source names.
\<close>

record ProfileInfo =
  fullName :: string
  relation :: string
  image :: string
  IconComponent :: string

text \<open>\<^verbatim>\<open>const profileData\<close> (lines 61-74): the own properties of the object literal.\<close>

definition profileData :: "string \<rightharpoonup> ProfileInfo" where
  "profileData =
     [''Daniel'' \<mapsto> \<lparr>fullName = ''Daniel Kim'', relation = ''Your Grandson'',
                     image = ''../assets/images/daniel-half.png'',
                     IconComponent = ''DanielIcons''\<rparr>,
      ''Michelle'' \<mapsto> \<lparr>fullName = ''Michelle Feng'', relation = ''Your Granddaughter'',
                       image = ''../assets/images/michelle-half.png'',
                       IconComponent = ''MichelleIcons''\<rparr>]"

text \<open>
  The state of one mounted \<open>App\<close> (lines 79-84): the React state \<open>detectedPerson\<close>,
  \<open>isCardVisible\<close> and \<open>imageCache\<close>, the ref \<open>lastDetectionTime\<close>, and whether
  \<^verbatim>\<open>cameraRef.current\<close> is set.
\<close>

record AppState =
  detectedPerson :: "DetectedPerson option"
  isCardVisible :: bool
  lastDetectionTime :: "string \<rightharpoonup> timestamp"
  imageCache :: "string \<rightharpoonup> string"
  cameraRef :: bool

text \<open>
  The literal \<^verbatim>\<open>0.6\<close> of line 206 denotes the double \<^verbatim>\<open>0x1.3333333333333p-1\<close>,
  the double nearest to 6/10; doubles between 1/2 and 1 are \<open>ulp\<close> apart.
\<close>

definition threshold :: real where
  "threshold = 5404319552844595 / 9007199254740992"

definition ulp :: real where
  "ulp = 1 / 9007199254740992"

subsection \<open>The cooldown check\<close>

text \<open>
  \<^verbatim>\<open>canShowPerson\<close> (lines 171-175), with the reading of \<^verbatim>\<open>Date.now()\<close> as the
  argument \<open>now\<close>. \<^verbatim>\<open>lastDetectionTime.current[personName] || 0\<close> is 0 when the entry
  is missing and when it is the falsy number 0.
\<close>

definition canShowPerson :: "(string \<rightharpoonup> timestamp) \<Rightarrow> timestamp \<Rightarrow> string \<Rightarrow> bool" where
  "canShowPerson lastDetection now personName =
     (let lastTime = (case lastDetection personName of
                        None \<Rightarrow> 0
                      | Some t \<Rightarrow> if t = 0 then 0 else t)
      in now - lastTime > 30000)"

subsection \<open>One cycle\<close>

text \<open>
  \<^verbatim>\<open>setDetectedPerson\<close> followed by the effect of lines 164-169, which React runs
  when \<open>detectedPerson\<close> has changed.
\<close>

definition setDetectedPerson :: "DetectedPerson option \<Rightarrow> AppState \<Rightarrow> AppState" where
  "setDetectedPerson p st =
     (let st1 = st\<lparr>detectedPerson := p\<rparr>
      in if detectedPerson st1 \<noteq> None \<and> \<not> isCardVisible st1
         then st1\<lparr>isCardVisible := True\<rparr> else st1)"

text \<open>The gesture handler's \<^verbatim>\<open>onEnd\<close> (lines 148-156), without the animation value.\<close>

definition onEnd :: "real \<Rightarrow> AppState \<Rightarrow> AppState" where
  "onEnd translationY st =
     (if translationY > 50
      then setDetectedPerson None (st\<lparr>isCardVisible := False\<rparr>)
      else st)"

text \<open>The body of the server's answer; \<open>persons\<close> is \<open>None\<close> when the field is missing.\<close>

record DetectionResult =
  persons :: "DetectedPerson list option"

text \<open>
  A call of \<^verbatim>\<open>setDetectedPerson(result.persons[0])\<close> by a cycle, with the two readings
  of the clock that surround it: the one \<^verbatim>\<open>canShowPerson\<close> compared (line 172) and the
  one stored in \<^verbatim>\<open>lastDetectionTime\<close> (line 209).
\<close>

record announcement =
  shown :: DetectedPerson
  checkedAt :: timestamp
  recordedAt :: timestamp

text \<open>
  Lines 205-210: the part of the cycle after the last \<^verbatim>\<open>await\<close>. \<open>now1\<close> is what
  \<^verbatim>\<open>Date.now()\<close> returns inside \<^verbatim>\<open>canShowPerson\<close>, \<open>now2\<close> what it returns on
  line 209.
\<close>

definition handleResult ::
  "DetectionResult \<Rightarrow> timestamp \<Rightarrow> timestamp \<Rightarrow> AppState \<Rightarrow> AppState \<times> announcement option" where
  "handleResult result now1 now2 st =
     (case persons result of
        None \<Rightarrow> (st, None)
      | Some [] \<Rightarrow> (st, None)
      | Some (p # rest) \<Rightarrow>
          if similarity p > threshold \<and> canShowPerson (lastDetectionTime st) now1 (name p)
          then ((setDetectedPerson (Some p) st)
                  \<lparr>lastDetectionTime := (lastDetectionTime st)(name p \<mapsto> now2)\<rparr>,
                Some \<lparr>shown = p, checkedAt = now1, recordedAt = now2\<rparr>)
          else (st, None))"

datatype error = CollaboratorFailure string

text \<open>
  What the outside world answers during one cycle: each promise rejects (\<open>Inl\<close>) or
  resolves (\<open>Inr\<close>); \<^verbatim>\<open>takePictureAsync\<close> may resolve with no photo.
\<close>

record cycle_env =
  takePictureAsync :: "error + string option"
  manipulateAsync :: "error + string"
  fetch :: "error + unit"
  json :: "error + DetectionResult"
  now_check :: timestamp
  now_record :: timestamp

text \<open>
  \<^verbatim>\<open>captureAndSendFrame\<close> from its first \<^verbatim>\<open>await\<close> on (lines 180-210). There is no
  \<^verbatim>\<open>try\<close> in the function: a rejection ends it, and the promise it returned rejects.
  The result is that promise's outcome, the state and the announcement made, if any.
\<close>

definition resumeCycle ::
  "cycle_env \<Rightarrow> AppState \<Rightarrow> (error + unit) \<times> AppState \<times> announcement option" where
  "resumeCycle env st =
     (case takePictureAsync env of
        Inl e \<Rightarrow> (Inl e, st, None)
      | Inr None \<Rightarrow> (Inr (), st, None)
      | Inr (Some photo) \<Rightarrow>
          (case manipulateAsync env of
             Inl e \<Rightarrow> (Inl e, st, None)
           | Inr resizedPhoto \<Rightarrow>
               (case fetch env of
                  Inl e \<Rightarrow> (Inl e, st, None)
                | Inr response \<Rightarrow>
                    (case json env of
                       Inl e \<Rightarrow> (Inl e, st, None)
                     | Inr result \<Rightarrow>
                         (Inr (), handleResult result (now_check env) (now_record env) st)))))"

text \<open>
  \<^verbatim>\<open>captureAndSendFrame\<close> (lines 177-213) when nothing else runs between its
  \<^verbatim>\<open>await\<close>s.
\<close>

definition captureAndSendFrame ::
  "cycle_env \<Rightarrow> AppState \<Rightarrow> (error + unit) \<times> AppState \<times> announcement option" where
  "captureAndSendFrame env st =
     (if cameraRef st then resumeCycle env st else (Inr (), st, None))"

subsection \<open>The session: timer, cycles in flight, cleanup\<close>

text \<open>
  The effect of lines 159-162 registers \<^verbatim>\<open>setInterval(captureAndSendFrame,
  CAPTURE_INTERVAL)\<close> at mount and clears it in its cleanup. The timer calls the function
  at every expiry and drops the promise it returns. \<open>inFlight\<close> counts the calls that
  are suspended at an \<^verbatim>\<open>await\<close>; \<open>announced\<close> and \<open>unhandled\<close> log the calls of
  \<^verbatim>\<open>setDetectedPerson\<close> made by cycles and the rejections nobody handles.
\<close>

definition CAPTURE_INTERVAL :: int where
  "CAPTURE_INTERVAL = 2000"

record Session =
  app :: AppState
  intervalActive :: bool
  inFlight :: nat
  announced :: "announcement list"
  unhandled :: "error list"

datatype event =
    Tick
  | Settle cycle_env
  | Cleanup
  | SwipeEnd real

definition mount :: "bool \<Rightarrow> Session" where
  "mount camera =
     \<lparr>app = \<lparr>detectedPerson = None, isCardVisible = False, lastDetectionTime = Map.empty,
             imageCache = Map.empty, cameraRef = camera\<rparr>,
      intervalActive = True, inFlight = 0, announced = [], unhandled = []\<rparr>"

text \<open>
  \<open>Tick\<close>: the timer fires, if it has not been cleared; the call passes line 178 and
  suspends at line 180 when the camera ref is set, and returns at once otherwise.
  \<open>Settle env\<close>: one suspended call runs to its end with the answers \<open>env\<close>.
  \<open>Cleanup\<close>: \<^verbatim>\<open>clearInterval(interval)\<close>. \<open>SwipeEnd y\<close>: the gesture ends.
\<close>

fun step :: "Session \<Rightarrow> event \<Rightarrow> Session" where
  "step s Tick =
     (if intervalActive s \<and> cameraRef (app s) then s\<lparr>inFlight := Suc (inFlight s)\<rparr> else s)"
| "step s (Settle env) =
     (if inFlight s = 0 then s
      else (case resumeCycle env (app s) of
              (outcome, st', a) \<Rightarrow>
                s\<lparr>app := st',
                  inFlight := inFlight s - 1,
                  announced := announced s @ (case a of None \<Rightarrow> [] | Some x \<Rightarrow> [x]),
                  unhandled := unhandled s @ (case outcome of Inl e \<Rightarrow> [e] | Inr u \<Rightarrow> [])\<rparr>))"
| "step s Cleanup = s\<lparr>intervalActive := False\<rparr>"
| "step s (SwipeEnd translationY) = s\<lparr>app := onEnd translationY (app s)\<rparr>"

definition run :: "event list \<Rightarrow> Session \<Rightarrow> Session" where
  "run evs s = foldl step s evs"

subsection \<open>The card\<close>

text \<open>
  What the bottom sheet shows (lines 258-294). \<^verbatim>\<open>profileData[name]\<close> finds the own
  properties of the literal and, as for every JavaScript object, the members it inherits
  from \<^verbatim>\<open>Object.prototype\<close> (\<^verbatim>\<open>constructor\<close>, \<^verbatim>\<open>toString\<close>, ...). Which names are
  inherited is fixed by the engine: the parameter \<open>inherited\<close>. An inherited member is
  truthy, so the guard passes, but it has no \<^verbatim>\<open>fullName\<close>, \<^verbatim>\<open>relation\<close>,
  \<^verbatim>\<open>image\<close> or \<^verbatim>\<open>IconComponent\<close>: \<open>InvalidCard\<close>.
\<close>

datatype imageSource = Uri string | Asset string

datatype card =
    NoCard
  | PersonCard imageSource string string string
  | InvalidCard

definition renderCard :: "(string \<Rightarrow> bool) \<Rightarrow> AppState \<Rightarrow> card" where
  "renderCard inherited st =
     (case detectedPerson st of
        None \<Rightarrow> NoCard
      | Some p \<Rightarrow>
          (case profileData (name p) of
             Some info \<Rightarrow>
               PersonCard
                 (case imageCache st (name p) of
                    None \<Rightarrow> Asset (image info)
                  | Some uri \<Rightarrow> if uri = [] then Asset (image info) else Uri uri)
                 (fullName info) (ProfileInfo.relation info) (IconComponent info)
           | None \<Rightarrow> if inherited (name p) then InvalidCard else NoCard))"

definition showsDetails :: "card \<Rightarrow> bool" where
  "showsDetails c = (case c of PersonCard src full rel icon \<Rightarrow> True | _ \<Rightarrow> False)"

subsection \<open>Predicates used in the proofs\<close>




subsection \<open>Sample inputs\<close>

definition grandson :: DetectedPerson where
  "grandson = \<lparr>name = ''Daniel'', similarity = 3 / 4, relation = ''Your Grandson''\<rparr>"

definition neighbour :: DetectedPerson where
  "neighbour = \<lparr>name = ''Bob'', similarity = 9 / 10, relation = ''Neighbour''\<rparr>"

definition answers :: "DetectedPerson list \<Rightarrow> timestamp \<Rightarrow> cycle_env" where
  "answers ps t =
     \<lparr>takePictureAsync = Inr (Some ''file:///photo.jpg''), manipulateAsync = Inr ''/9j/4AAQ'',
      fetch = Inr (), json = Inr \<lparr>persons = Some ps\<rparr>, now_check = t, now_record = t\<rparr>"



section \<open>Basic facts\<close>

lemma threshold_nearest: "\<bar>threshold - 6 / 10\<bar> \<le> ulp / 2"
  by (simp add: threshold_def ulp_def)

lemma canShowPerson_eq:
  "canShowPerson m now p = (now - (case m p of None \<Rightarrow> 0 | Some t \<Rightarrow> t) > 30000)"
  by (simp add: canShowPerson_def split: option.splits)

lemma handleResult_Cons:
  "handleResult \<lparr>persons = Some (p # ps)\<rparr> n1 n2 st =
     (if threshold < similarity p \<and> canShowPerson (lastDetectionTime st) n1 (name p)
      then ((setDetectedPerson (Some p) st)
              \<lparr>lastDetectionTime := (lastDetectionTime st)(name p \<mapsto> n2)\<rparr>,
            Some \<lparr>shown = p, checkedAt = n1, recordedAt = n2\<rparr>)
      else (st, None))"
  by (simp add: handleResult_def)

lemma setDetectedPerson_Some:
  "setDetectedPerson (Some p) st = st\<lparr>detectedPerson := Some p, isCardVisible := True\<rparr>"
  by (cases "isCardVisible st") (simp_all add: setDetectedPerson_def Let_def)

lemma setDetectedPerson_lastDetectionTime [simp]:
  "lastDetectionTime (setDetectedPerson p st) = lastDetectionTime st"
  by (simp add: setDetectedPerson_def Let_def)

lemma onEnd_lastDetectionTime [simp]: "lastDetectionTime (onEnd y st) = lastDetectionTime st"
  by (simp add: onEnd_def)

lemma run_Nil [simp]: "run [] s = s"
  by (simp add: run_def)

lemma run_Cons [simp]: "run (e # evs) s = run evs (step s e)"
  by (simp add: run_def)

section \<open>The cooldown gate\<close>







section \<open>The similarity threshold\<close>

text \<open>
  Claim C2, as written: a best similarity equal to the threshold is accepted. Line 206
  compares with \<^verbatim>\<open>>\<close>: Daniel, never announced, seen with a similarity of exactly
  the threshold, is not announced.
\<close>

theorem similarity_at_threshold_not_announced:
  "snd (handleResult \<lparr>persons = Some [grandson\<lparr>similarity := threshold\<rparr>]\<rparr>
          1700000000000 1700000000000 (app (mount True))) = None"
  by (simp add: handleResult_def)

text \<open>
  Claim C2, amended: the comparison is exclusive. The first person of an answer is
  announced if and only if its similarity is strictly greater than the threshold and the
  cooldown check passes; a similarity equal to the threshold, or one ULP below it, is not
  a match and leaves the state as it was; one ULP above it is a match whenever the
  cooldown check passes.
\<close>

theorem match_strictly_above_threshold:
  "(snd (handleResult \<lparr>persons = Some (p # ps)\<rparr> n1 n2 st) \<noteq> None)
     = (threshold < similarity p \<and> canShowPerson (lastDetectionTime st) n1 (name p))
   \<and> handleResult \<lparr>persons = Some (p\<lparr>similarity := threshold\<rparr> # ps)\<rparr> n1 n2 st = (st, None)
   \<and> handleResult \<lparr>persons = Some (p\<lparr>similarity := threshold - ulp\<rparr> # ps)\<rparr> n1 n2 st = (st, None)
   \<and> (snd (handleResult \<lparr>persons = Some (p\<lparr>similarity := threshold + ulp\<rparr> # ps)\<rparr> n1 n2 st) \<noteq> None)
       = canShowPerson (lastDetectionTime st) n1 (name p)"
  by (simp add: handleResult_Cons ulp_def)

section \<open>Only the first person of an answer\<close>

text \<open>
  Claim C9: a cycle looks at \<^verbatim>\<open>result.persons[0]\<close> only. Whatever follows the first
  person in the list, the cycle does what it does for the first person alone, and the
  only announcement it can make is of the first person.
\<close>

theorem only_first_person_considered:
  "handleResult \<lparr>persons = Some (p # rest)\<rparr> n1 n2 st
     = handleResult \<lparr>persons = Some [p]\<rparr> n1 n2 st
   \<and> resumeCycle (env\<lparr>json := Inr \<lparr>persons = Some (p # rest)\<rparr>\<rparr>) st
     = resumeCycle (env\<lparr>json := Inr \<lparr>persons = Some [p]\<rparr>\<rparr>) st
   \<and> (snd (handleResult \<lparr>persons = Some (p # rest)\<rparr> n1 n2 st) = None
      \<or> snd (handleResult \<lparr>persons = Some (p # rest)\<rparr> n1 n2 st)
          = Some \<lparr>shown = p, checkedAt = n1, recordedAt = n2\<rparr>)"
  by (simp add: handleResult_Cons resumeCycle_def split: sum.splits option.splits)

text \<open>
  An instance: the first person is below the threshold, the second is above it and was
  never announced; nothing is announced and the state stays as it was.
\<close>

theorem only_first_person_considered_witness:
  "handleResult \<lparr>persons = Some [grandson\<lparr>similarity := 3 / 10\<rparr>, neighbour]\<rparr>
      1700000000000 1700000000000 (app (mount True))
     = (app (mount True), None)
   \<and> threshold < similarity neighbour
   \<and> canShowPerson (lastDetectionTime (app (mount True))) 1700000000000 (name neighbour)"
  using only_first_person_considered [where p = "grandson\<lparr>similarity := 3 / 10\<rparr>"
      and rest = "[neighbour]" and ?n1.0 = 1700000000000 and ?n2.0 = 1700000000000
      and st = "app (mount True)"]
  by (simp add: handleResult_Cons canShowPerson_eq grandson_def neighbour_def threshold_def
      mount_def)

section \<open>Cycles without a match\<close>

lemma handleResult_no_match:
  assumes "persons r = None \<or> persons r = Some []
           \<or> (\<exists>ps. persons r = Some ps \<and> (\<forall>p\<in>set ps. similarity p < threshold))"
  shows "handleResult r n1 n2 st = (st, None)"
  using assms by (auto simp: handleResult_def split: option.splits list.splits)

text \<open>
  Claim C5: when the server's answer has no person, or every person of it (hence the
  best one) has a similarity below the threshold, the cycle announces nothing and leaves
  the whole state, \<open>lastDetectionTime\<close> included, as it was; so does the session when
  the cycle settles.
\<close>

theorem no_match_leaves_gate_untouched:
  assumes "json env = Inr r"
    and "persons r = None \<or> persons r = Some []
         \<or> (\<exists>ps. persons r = Some ps \<and> (\<forall>p\<in>set ps. similarity p < threshold))"
  shows "snd (resumeCycle env st) = (st, None)
     \<and> snd (captureAndSendFrame env st) = (st, None)
     \<and> app (step s (Settle env)) = app s
     \<and> lastDetectionTime (app (step s (Settle env))) = lastDetectionTime (app s)
     \<and> announced (step s (Settle env)) = announced s"
proof -
  have quiet: "snd (resumeCycle env st') = (st', None)" for st'
    using assms(1) handleResult_no_match [OF assms(2)]
    by (simp add: resumeCycle_def split: sum.splits option.splits)
  have "snd (captureAndSendFrame env st) = (st, None)"
    using quiet by (simp add: captureAndSendFrame_def)
  moreover have "app (step s (Settle env)) = app s \<and> announced (step s (Settle env)) = announced s"
    using quiet [of "app s"] by (cases "resumeCycle env (app s)") auto
  ultimately show ?thesis using quiet by simp
qed

theorem no_match_leaves_gate_untouched_witness:
  "json (answers [grandson\<lparr>similarity := 4 / 10\<rparr>] 1700000000000)
     = Inr \<lparr>persons = Some [grandson\<lparr>similarity := 4 / 10\<rparr>]\<rparr>
   \<and> similarity (grandson\<lparr>similarity := 4 / 10\<rparr>) < threshold
   \<and> captureAndSendFrame (answers [grandson\<lparr>similarity := 4 / 10\<rparr>] 1700000000000) (app (mount True))
       = (Inr (), app (mount True), None)
   \<and> announced (run [Tick, Settle (answers [grandson\<lparr>similarity := 4 / 10\<rparr>] 1700000000000)]
        (mount True)) = []
   \<and> lastDetectionTime (app (run [Tick, Settle (answers [grandson\<lparr>similarity := 4 / 10\<rparr>] 1700000000000)]
        (mount True))) = Map.empty"
  using no_match_leaves_gate_untouched [where env = "answers [grandson\<lparr>similarity := 4 / 10\<rparr>] 1700000000000"
      and r = "\<lparr>persons = Some [grandson\<lparr>similarity := 4 / 10\<rparr>]\<rparr>"
      and st = "app (mount True)" and s = "step (mount True) Tick"]
  by (simp add: answers_def grandson_def threshold_def mount_def captureAndSendFrame_def
      resumeCycle_def handleResult_def)

section \<open>The card and the profile table\<close>

lemma profileData_Some_iff:
  "(profileData k \<noteq> None) = (k = ''Daniel'' \<or> k = ''Michelle'')"
  by (simp add: profileData_def)

text \<open>
  Claim C10: the card shows a full name, relation and image exactly when a person is
  detected whose name is \<^verbatim>\<open>Daniel\<close> or \<^verbatim>\<open>Michelle\<close>, the two keys of
  \<open>profileData\<close>. A first person with any other name, above the threshold and allowed by
  the cooldown check, is still accepted: it becomes \<open>detectedPerson\<close> and the time is
  stored for its name, but the card shows no details.
\<close>

theorem card_details_only_for_profiles:
  "showsDetails (renderCard inherited st)
     = (case detectedPerson st of None \<Rightarrow> False
        | Some q \<Rightarrow> name q = ''Daniel'' \<or> name q = ''Michelle'')
   \<and> (threshold < similarity p \<and> canShowPerson (lastDetectionTime st) n1 (name p)
        \<and> name p \<noteq> ''Daniel'' \<and> name p \<noteq> ''Michelle'' \<longrightarrow>
       (let (st', a) = handleResult \<lparr>persons = Some (p # ps)\<rparr> n1 n2 st in
          a = Some \<lparr>shown = p, checkedAt = n1, recordedAt = n2\<rparr>
          \<and> detectedPerson st' = Some p
          \<and> lastDetectionTime st' (name p) = Some n2
          \<and> \<not> showsDetails (renderCard inherited st')))"
proof -
  have "showsDetails (renderCard inherited st')
     = (case detectedPerson st' of None \<Rightarrow> False | Some q \<Rightarrow> profileData (name q) \<noteq> None)" for st'
    by (simp add: renderCard_def showsDetails_def split: option.splits)
  then have shows_iff: "showsDetails (renderCard inherited st')
     = (case detectedPerson st' of None \<Rightarrow> False
        | Some q \<Rightarrow> name q = ''Daniel'' \<or> name q = ''Michelle'')" for st'
    by (simp only: profileData_Some_iff)
  show ?thesis
    by (simp add: shows_iff handleResult_Cons setDetectedPerson_Some)
qed

theorem card_details_only_for_profiles_witness:
  "threshold < similarity neighbour
   \<and> canShowPerson (lastDetectionTime (app (mount True))) 1700000000000 (name neighbour)
   \<and> name neighbour \<noteq> ''Daniel'' \<and> name neighbour \<noteq> ''Michelle''
   \<and> (let (st', a) = handleResult \<lparr>persons = Some [neighbour]\<rparr> 1700000000000 1700000000001
                       (app (mount True)) in
        a = Some \<lparr>shown = neighbour, checkedAt = 1700000000000, recordedAt = 1700000000001\<rparr>
        \<and> detectedPerson st' = Some neighbour
        \<and> lastDetectionTime st' ''Bob'' = Some 1700000000001
        \<and> renderCard (\<lambda>k. k = ''constructor'') st' = NoCard)
   \<and> (let (st', a) = handleResult \<lparr>persons = Some [grandson]\<rparr> 1700000000000 1700000000001
                       (app (mount True)) in
        renderCard (\<lambda>k. k = ''constructor'') st'
          = PersonCard (Asset ''../assets/images/daniel-half.png'') ''Daniel Kim''
              ''Your Grandson'' ''DanielIcons'')"
  using card_details_only_for_profiles [where p = neighbour and ps = "[]"
      and st = "app (mount True)" and ?n1.0 = 1700000000000 and ?n2.0 = 1700000000001
      and inherited = "\<lambda>k. k = ''constructor''"]
  by (simp add: handleResult_Cons setDetectedPerson_Some canShowPerson_eq renderCard_def
      profileData_def neighbour_def grandson_def threshold_def mount_def)

section \<open>What a cycle can do\<close>





section \<open>Spacing of announcements\<close>








section \<open>Errors of the collaborators\<close>




section \<open>After the cleanup\<close>








section \<open>Ticks while a cycle is in flight\<close>

text \<open>
  Claim C8, as written: at most one cycle is in flight, a tick during a running cycle is
  skipped. Two ticks with no cycle settling in between leave two cycles in flight.
\<close>

theorem two_ticks_two_cycles_in_flight:
  "inFlight (run [Tick, Tick] (mount True)) = 2"
  by (simp add: mount_def)

lemma ticks_run:
  assumes "intervalActive s" and "cameraRef (app s)"
  shows "inFlight (run (replicate n Tick) s) = inFlight s + n
     \<and> app (run (replicate n Tick) s) = app s"
  using assms by (induction n arbitrary: s) simp_all

text \<open>
  Claim C8, amended. No tick is skipped: while the timer is active and the camera ref is
  set, every tick puts one more cycle in flight, whether or not others are in flight, so
  \<open>n\<close> ticks with no cycle settling in between leave \<open>n\<close> more cycles in flight. The
  number of cycles in flight is not bounded by one.
\<close>

theorem every_tick_starts_a_cycle:
  assumes "intervalActive s" and "cameraRef (app s)"
  shows "inFlight (step s Tick) = Suc (inFlight s)
     \<and> inFlight (run (replicate n Tick) s) = inFlight s + n"
  using assms ticks_run [OF assms, of n] by simp

theorem every_tick_starts_a_cycle_witness:
  "intervalActive (mount True) \<and> cameraRef (app (mount True))
   \<and> inFlight (run (replicate 5 Tick) (mount True)) = 5"
  using every_tick_starts_a_cycle [where s = "mount True" and n = 5]
  by (simp add: mount_def)

end
